theory Spec2Isabelle
  imports Main "HOL-Library.Word" "HOL-Library.Sublist"
begin

section \<open>HTTP instrumentation middleware (custom/http/http.go)\<close>

text \<open>
  An attribute is a key with a string or an integer value, as built by
  \<^verbatim>\<open>attribute.String\<close> and \<^verbatim>\<open>attribute.Int\<close>. An attribute set is kept as the list
  of attributes in the order the source passes them to \<^verbatim>\<open>metric.WithAttributes\<close>.
\<close>

datatype attr_value = AString string | AInt int | ABool bool

type_synonym attribute = "string \<times> attr_value"

text \<open>The two fields of \<^verbatim>\<open>http.Request\<close> that the middleware reads.\<close>

record request =
  Method :: string
  RequestURI :: string

text \<open>
  \<^verbatim>\<open>responseWriter\<close> embeds the wrapped \<^verbatim>\<open>http.ResponseWriter\<close> and adds the field
  \<^verbatim>\<open>statusCode\<close>. The wrapped writer is represented by the list of status codes that
  were forwarded to its own \<^verbatim>\<open>WriteHeader\<close>.
\<close>

record responseWriter =
  ResponseWriter :: "int list"
  statusCode :: int

text \<open>
  What an inner handler can do with the writer it is given: it sees the interface
  \<^verbatim>\<open>http.ResponseWriter\<close> only, so it calls \<^verbatim>\<open>WriteHeader\<close>, \<^verbatim>\<open>Write\<close> or
  \<^verbatim>\<open>Header\<close>, in any number and order, and then either returns or panics.
  A handler is a function of the request to that behaviour.
\<close>

datatype writer_call = CallWriteHeader int | CallWrite "nat list" | CallHeader

datatype outcome = Returns | Panics

type_synonym handler = "request \<Rightarrow> writer_call list \<times> outcome"

text \<open>
  \<^verbatim>\<open>func (lrw *responseWriter) WriteHeader(code int)\<close>: stores the code, then forwards
  the call to the wrapped writer.
\<close>

definition WriteHeader :: "int \<Rightarrow> responseWriter \<Rightarrow> responseWriter" where
  "WriteHeader code lrw =
     lrw\<lparr>statusCode := code, ResponseWriter := ResponseWriter lrw @ [code]\<rparr>"

text \<open>
  \<^verbatim>\<open>Write\<close> and \<^verbatim>\<open>Header\<close> are promoted from the embedded writer: they go to the
  wrapped writer and leave \<^verbatim>\<open>statusCode\<close> alone.
\<close>

fun writer_step :: "responseWriter \<Rightarrow> writer_call \<Rightarrow> responseWriter" where
  "writer_step lrw (CallWriteHeader code) = WriteHeader code lrw"
| "writer_step lrw (CallWrite bytes) = lrw"
| "writer_step lrw CallHeader = lrw"

definition ServeHTTP :: "handler \<Rightarrow> responseWriter \<Rightarrow> request \<Rightarrow> responseWriter \<times> outcome" where
  "ServeHTTP next rw r = (case next r of (calls, out) \<Rightarrow> (foldl writer_step rw calls, out))"

text \<open>
  The two instruments of \<^verbatim>\<open>httpMetricsMiddleware\<close>, each as the list of measurements
  made on it so far: \<^verbatim>\<open>requestCounter.Add\<close> appends an increment with its attributes,
  \<^verbatim>\<open>requestDuration.Record\<close> an observation with its attributes. The observed value is
  the elapsed time in nanoseconds, \<^verbatim>\<open>time.Since(start).Nanoseconds()\<close>; its conversion to
  \<^verbatim>\<open>float64\<close> is left out.
\<close>

record httpMetricsMiddleware =
  requestCounter :: "(int \<times> attribute list) list"
  requestDuration :: "(int \<times> attribute list) list"

text \<open>
  The function \<^verbatim>\<open>fn\<close> that \<^verbatim>\<open>Handler\<close> returns. \<^verbatim>\<open>elapsed\<close> is what the clock gives
  for \<^verbatim>\<open>time.Since(start)\<close>. There is no \<^verbatim>\<open>defer\<close> and no \<^verbatim>\<open>recover\<close> in \<^verbatim>\<open>fn\<close>:
  a panic of \<^verbatim>\<open>next.ServeHTTP\<close> leaves \<^verbatim>\<open>fn\<close> at once, before the two recording calls.
\<close>

definition Handler ::
  "handler \<Rightarrow> request \<Rightarrow> int \<Rightarrow> httpMetricsMiddleware \<Rightarrow> outcome \<times> responseWriter \<times> httpMetricsMiddleware"
where
  "Handler next r elapsed m =
     (let rw = \<lparr>ResponseWriter = [], statusCode = 200\<rparr> in
      case ServeHTTP next rw r of
        (rw', Panics) \<Rightarrow> (Panics, rw', m)
      | (rw', Returns) \<Rightarrow>
          (let m1 = m\<lparr>requestDuration := requestDuration m @
                      [(elapsed,
                        [(''method'', AString (Method r)),
                         (''uri'', AString (RequestURI r)),
                         (''statusCode'', AInt (statusCode rw'))])]\<rparr>;
               m2 = m1\<lparr>requestCounter := requestCounter m1 @
                      [(1,
                        [(''method'', AString (Method r)),
                         (''uri'', AString (RequestURI r)),
                         (''statusCode'', AInt (statusCode rw'))])]\<rparr>
           in (Returns, rw', m2)))"

text \<open>
  A server passing a sequence of requests, each with its elapsed time, through the
  wrapped handler. A panic is the server's to recover; the next request is served all
  the same.
\<close>

fun serve :: "handler \<Rightarrow> (request \<times> int) list \<Rightarrow> httpMetricsMiddleware \<Rightarrow> httpMetricsMiddleware" where
  "serve next [] m = m"
| "serve next ((r, elapsed) # rs) m = serve next rs (snd (snd (Handler next r elapsed m)))"

definition counter_total :: "httpMetricsMiddleware \<Rightarrow> int" where
  "counter_total m = sum_list (map fst (requestCounter m))"

text \<open>The arguments of the handler's \<^verbatim>\<open>WriteHeader\<close> calls, in order.\<close>

fun header_codes :: "writer_call list \<Rightarrow> int list" where
  "header_codes [] = []"
| "header_codes (CallWriteHeader code # cs) = code # header_codes cs"
| "header_codes (CallWrite bytes # cs) = header_codes cs"
| "header_codes (CallHeader # cs) = header_codes cs"


section \<open>Providers (metrics.go, otlp/otlp.go, noop/noop.go)\<close>

text \<open>
  A Go \<^verbatim>\<open>error\<close> value is represented by its message. A transport connection and an
  exporter are handles. A \<^verbatim>\<open>*sdkmetric.MeterProvider\<close> is a pointer to a fresh object:
  \<^verbatim>\<open>ident\<close> is its identity, \<^verbatim>\<open>reader\<close> the exporter of its periodic reader (none for a
  provider built without options) and \<^verbatim>\<open>resource\<close> its resource attributes.
\<close>

datatype error = Error string

datatype conn = Conn nat

datatype exporter = Exporter nat

datatype MeterProvider =
  MeterProvider (ident: nat) (reader: "exporter option option") (resource: "attribute list")

text \<open>The fields of \<^verbatim>\<open>configs.Configs\<close> that the three \<^verbatim>\<open>Install\<close> functions use.
  \<^verbatim>\<open>Logger\<close> is the list of messages logged at error level.\<close>

record Configs =
  Enabled :: bool
  OTLPExporterConn :: "conn option"
  MetricsProvider :: "MeterProvider option"
  Logger :: "(string \<times> error) list"
  Name :: string
  Namespace :: string
  Environment :: string

text \<open>
  The process outside the configuration: the provider published by
  \<^verbatim>\<open>otel.SetMeterProvider\<close>, the number of objects allocated so far (the identity of the
  next provider), how often the connection factory has been called, and the connections
  handed to \<^verbatim>\<open>otlpmetricgrpc.New\<close>, in order.
\<close>

record process =
  global :: MeterProvider
  allocated :: nat
  factoryCalls :: nat
  exporterConns :: "conn option list"

text \<open>
  The two collaborators from other modules, as parameters, each returning the pair a Go
  function returns: \<^verbatim>\<open>otlpgrpc.NewExporterGRPCClient\<close> (the connection factory; its result
  may depend on the configuration and on how often it was called before) and
  \<^verbatim>\<open>otlpmetricgrpc.New\<close> with the option \<^verbatim>\<open>WithGRPCConn\<close>.
\<close>

record collaborators =
  NewExporterGRPCClient :: "Configs \<Rightarrow> nat \<Rightarrow> conn option \<times> error option"
  otlpmetricgrpc_New :: "conn option \<Rightarrow> nat \<Rightarrow> exporter option \<times> error option"

text \<open>
  A result \<^verbatim>\<open>(*sdkmetric.MeterProvider, error)\<close> is \<open>Inl err\<close> for \<^verbatim>\<open>return nil, err\<close>
  and \<open>Inr provider\<close> for \<^verbatim>\<open>return provider, nil\<close>. Each function also returns the
  configuration, which it changes through the pointer \<^verbatim>\<open>cfgs\<close>, and the process.
\<close>

type_synonym install_result = "(error + MeterProvider) \<times> Configs \<times> process"

definition otlp_resource :: "Configs \<Rightarrow> attribute list" where
  "otlp_resource cfgs =
     [(''service.name'', AString (Name cfgs)),
      (''service.namespace'', AString (Namespace cfgs)),
      (''service.environment'', AString (Environment cfgs)),
      (''deployment.environment'', AString (Environment cfgs)),
      (''telemetry.sdk.language'', AString ''go''),
      (''telemetry.sdk.language'', ABool True)]"

text \<open>\<^verbatim>\<open>otlp.Install\<close>.\<close>

definition otlp_Install :: "collaborators \<Rightarrow> Configs \<Rightarrow> process \<Rightarrow> install_result" where
  "otlp_Install ext cfgs p =
     (let (r1, cfgs1, p1) =
            (if OTLPExporterConn cfgs = None then
               (case NewExporterGRPCClient ext cfgs (factoryCalls p) of
                  (c, Some err) \<Rightarrow>
                    (Some err,
                     cfgs\<lparr>Logger := Logger cfgs @ [(''failed to create grpc exporter'', err)]\<rparr>,
                     p\<lparr>factoryCalls := factoryCalls p + 1\<rparr>)
                | (c, None) \<Rightarrow>
                    (None, cfgs\<lparr>OTLPExporterConn := c\<rparr>, p\<lparr>factoryCalls := factoryCalls p + 1\<rparr>))
             else (None, cfgs, p))
      in case r1 of
           Some err \<Rightarrow> (Inl err, cfgs1, p1)
         | None \<Rightarrow>
             (let p2 = p1\<lparr>exporterConns := exporterConns p1 @ [OTLPExporterConn cfgs1]\<rparr> in
              case otlpmetricgrpc_New ext (OTLPExporterConn cfgs1) (length (exporterConns p1)) of
                (exp, Some err) \<Rightarrow>
                  (Inl err,
                   cfgs1\<lparr>Logger := Logger cfgs1 @ [(''failed to create OTLP metric exporter'', err)]\<rparr>,
                   p2)
              | (exp, None) \<Rightarrow>
                  (let meterProvider = MeterProvider (allocated p2) (Some exp) (otlp_resource cfgs1)
                   in (Inr meterProvider,
                       cfgs1\<lparr>MetricsProvider := Some meterProvider\<rparr>,
                       p2\<lparr>allocated := allocated p2 + 1, global := meterProvider\<rparr>))))"

text \<open>\<^verbatim>\<open>noop.Install\<close>: a provider without options, stored in the configuration.\<close>

definition noop_Install :: "Configs \<Rightarrow> process \<Rightarrow> install_result" where
  "noop_Install cfgs p =
     (let provider = MeterProvider (allocated p) None []
      in (Inr provider, cfgs\<lparr>MetricsProvider := Some provider\<rparr>, p\<lparr>allocated := allocated p + 1\<rparr>))"

text \<open>\<^verbatim>\<open>metrics.Install\<close>.\<close>

definition Install :: "collaborators \<Rightarrow> Configs \<Rightarrow> process \<Rightarrow> install_result" where
  "Install ext cfgs p =
     (if Enabled cfgs then otlp_Install ext cfgs p else noop_Install cfgs p)"


section \<open>Runtime gauge collectors (custom/system)\<close>

text \<open>
  The fields of \<^verbatim>\<open>runtime.MemStats\<close> that the memory collector reads, with
  \<^verbatim>\<open>StackInuse\<close>, which it does not read. All are \<^verbatim>\<open>uint64\<close> but \<^verbatim>\<open>NumGC\<close>, a
  \<^verbatim>\<open>uint32\<close>.
\<close>

record MemStats =
  Sys :: "64 word"
  TotalAlloc :: "64 word"
  HeapAlloc :: "64 word"
  Frees :: "64 word"
  GCSys :: "64 word"
  HeapIdle :: "64 word"
  HeapInuse :: "64 word"
  HeapObjects :: "64 word"
  HeapReleased :: "64 word"
  HeapSys :: "64 word"
  LastGC :: "64 word"
  Lookups :: "64 word"
  Mallocs :: "64 word"
  MCacheInuse :: "64 word"
  MCacheSys :: "64 word"
  MSpanInuse :: "64 word"
  MSpanSys :: "64 word"
  NextGC :: "64 word"
  OtherSys :: "64 word"
  StackSys :: "64 word"
  NumGC :: "32 word"
  PauseTotalNs :: "64 word"
  StackInuse :: "64 word"

text \<open>
  The Go runtime, as far as the collectors see it: \<^verbatim>\<open>memReads\<close> counts the calls of
  \<^verbatim>\<open>runtime.ReadMemStats\<close>, and \<^verbatim>\<open>memStats k\<close> is the snapshot that call number \<open>k\<close>
  fills in, so two reads may see different numbers.
\<close>

record runtime =
  memReads :: nat
  memStats :: "nat \<Rightarrow> MemStats"
  NumCPU :: "64 word"
  NumCgoCall :: "64 word"
  NumGoroutine :: "64 word"

definition ReadMemStats :: "runtime \<Rightarrow> MemStats \<times> runtime" where
  "ReadMemStats rt = (memStats rt (memReads rt), rt\<lparr>memReads := memReads rt + 1\<rparr>)"

text \<open>
  The conversion \<^verbatim>\<open>int64(x)\<close> of a \<^verbatim>\<open>uint64\<close> keeps the 64 bits and reads them as two's
  complement; of a \<^verbatim>\<open>uint32\<close> it extends with zeros. The result is given as the integer
  that the \<^verbatim>\<open>int64\<close> stands for.
\<close>

definition int64 :: "64 word \<Rightarrow> int" where
  "int64 x = sint x"

definition int64_of_uint32 :: "32 word \<Rightarrow> int" where
  "int64_of_uint32 x = sint (ucast x :: 64 word)"

text \<open>An observable gauge is known by the name and the description it was created with.\<close>

datatype gauge = Gauge (gauge_name: string) (gauge_description: string)

record memGauges =
  ggSysBytes :: gauge
  ggAllocBytesTotal :: gauge
  ggHeapAllocBytes :: gauge
  ggFreesTotal :: gauge
  ggGcSysBytes :: gauge
  ggHeapIdleBytes :: gauge
  ggInuseBytes :: gauge
  ggHeapObjects :: gauge
  ggHeapReleasedBytes :: gauge
  ggHeapSysBytes :: gauge
  ggLastGcTimeSeconds :: gauge
  ggLookupsTotal :: gauge
  ggMallocsTotal :: gauge
  ggMCacheInuseBytes :: gauge
  ggMCacheSysBytes :: gauge
  ggMspanInuseBytes :: gauge
  ggMspanSysBytes :: gauge
  ggNextGcBytes :: gauge
  ggOtherSysBytes :: gauge
  ggStackInuseBytes :: gauge
  ggGcCompletedCycle :: gauge
  ggGcPauseTotal :: gauge

record sysGauges =
  ggThreads :: gauge
  ggCgo :: gauge
  ggGRoutines :: gauge

text \<open>
  A callback is the closure over the collector it was made from. A \<^verbatim>\<open>metric.Meter\<close> is
  the gauges created on it and the callbacks registered with it, in order.
\<close>

datatype callback = MemCallback memGauges | SysCallback sysGauges

record meter =
  gauges :: "gauge list"
  callbacks :: "callback list"

text \<open>
  The meter's implementation is outside the repository. When it refuses to create a
  gauge or to register a callback is a parameter: \<^verbatim>\<open>gaugeError\<close> decides from the gauges
  that exist and the name asked for, \<^verbatim>\<open>callbackError\<close> from the callbacks that exist and the
  one offered. A refused call changes nothing; an accepted one appends.
\<close>

record sdk =
  gaugeError :: "gauge list \<Rightarrow> string \<Rightarrow> error option"
  callbackError :: "callback list \<Rightarrow> callback \<Rightarrow> error option"

definition Int64ObservableGauge :: "sdk \<Rightarrow> string \<Rightarrow> string \<Rightarrow> meter \<Rightarrow> (error + gauge) \<times> meter" where
  "Int64ObservableGauge k name description mt =
     (case gaugeError k (gauges mt) name of
        Some err \<Rightarrow> (Inl err, mt)
      | None \<Rightarrow> (Inr (Gauge name description),
                 mt\<lparr>gauges := gauges mt @ [Gauge name description]\<rparr>))"



text \<open>
  \<^verbatim>\<open>x, err := f(...); if err != nil { return nil, err }\<close> followed by the rest of the
  function: the rest runs on the value and the meter that \<open>f\<close> left.
\<close>

definition orReturn ::
  "(error + 'a) \<times> meter \<Rightarrow> ('a \<Rightarrow> meter \<Rightarrow> (error + 'b) \<times> meter) \<Rightarrow> (error + 'b) \<times> meter"
where
  "orReturn r rest = (case r of (Inl err, mt) \<Rightarrow> (Inl err, mt) | (Inr x, mt) \<Rightarrow> rest x mt)"

text \<open>\<^verbatim>\<open>NewMemGauges\<close>.\<close>

definition NewMemGauges :: "sdk \<Rightarrow> meter \<Rightarrow> (error + memGauges) \<times> meter" where
  "NewMemGauges k mt0 =
     orReturn (Int64ObservableGauge k ''go_memstats_sys_bytes''
       ''Number of bytes obtained from system.'' mt0) (\<lambda>ggSysBytes mt1.
     orReturn (Int64ObservableGauge k ''go_memstats_alloc_bytes_total''
       ''Total number of bytes allocated, even if freed.'' mt1) (\<lambda>ggAllocBytesTotal mt2.
     orReturn (Int64ObservableGauge k ''go_memstats_heap_alloc_bytes''
       ''Number of heap bytes allocated and still in use.'' mt2) (\<lambda>ggHeapAllocBytes mt3.
     orReturn (Int64ObservableGauge k ''go_memstats_frees_total''
       ''Total number of frees.'' mt3) (\<lambda>ggFreesTotal mt4.
     orReturn (Int64ObservableGauge k ''go_memstats_gc_sys_bytes''
       ''Number of bytes used for garbage collection system metadata.'' mt4) (\<lambda>ggGcSysBytes mt5.
     orReturn (Int64ObservableGauge k ''go_memstats_heap_idle_bytes''
       ''Number of heap bytes waiting to be used.'' mt5) (\<lambda>ggHeapIdleBytes mt6.
     orReturn (Int64ObservableGauge k ''go_memstats_heap_inuse_bytes''
       ''Number of heap bytes that are in use.'' mt6) (\<lambda>ggInuseBytes mt7.
     orReturn (Int64ObservableGauge k ''go_memstats_heap_objects''
       ''Number of allocated objects.'' mt7) (\<lambda>ggHeapObjects mt8.
     orReturn (Int64ObservableGauge k ''go_memstats_heap_released_bytes''
       ''Number of heap bytes released to OS.'' mt8) (\<lambda>ggHeapReleasedBytes mt9.
     orReturn (Int64ObservableGauge k ''go_memstats_heap_sys_bytes''
       ''Number of heap bytes obtained from system.'' mt9) (\<lambda>ggHeapSysBytes mt10.
     orReturn (Int64ObservableGauge k ''go_memstats_last_gc_time_seconds''
       ''Number of seconds since 1970 of last garbage collection.'' mt10) (\<lambda>ggLastGcTimeSeconds mt11.
     orReturn (Int64ObservableGauge k ''go_memstats_lookups_total''
       ''Total number of pointer lookups.'' mt11) (\<lambda>ggLookupsTotal mt12.
     orReturn (Int64ObservableGauge k ''go_memstats_mallocs_total''
       ''Total number of mallocs.'' mt12) (\<lambda>ggMallocsTotal mt13.
     orReturn (Int64ObservableGauge k ''go_memstats_mcache_inuse_bytes''
       ''Number of bytes in use by mcache structures.'' mt13) (\<lambda>ggMCacheInuseBytes mt14.
     orReturn (Int64ObservableGauge k ''go_memstats_mcache_sys_bytes''
       ''Number of bytes used for mcache structures obtained from system.'' mt14) (\<lambda>ggMCacheSysBytes mt15.
     orReturn (Int64ObservableGauge k ''go_memstats_mspan_inuse_bytes''
       ''Number of bytes in use by mspan structures.'' mt15) (\<lambda>ggMspanInuseBytes mt16.
     orReturn (Int64ObservableGauge k ''go_memstats_mspan_sys_bytes''
       ''Number of bytes used for mspan structures obtained from system.'' mt16) (\<lambda>ggMspanSysBytes mt17.
     orReturn (Int64ObservableGauge k ''go_memstats_next_gc_bytes''
       ''Number of heap bytes when next garbage collection will take place.'' mt17) (\<lambda>ggNextGcBytes mt18.
     orReturn (Int64ObservableGauge k ''go_memstats_other_sys_bytes''
       ''Number of bytes used for other system allocations.'' mt18) (\<lambda>ggOtherSysBytes mt19.
     orReturn (Int64ObservableGauge k ''go_memstats_stack_inuse_bytes''
       ''Number of bytes in use by the stack allocator.'' mt19) (\<lambda>ggStackInuseBytes mt20.
     orReturn (Int64ObservableGauge k ''go_memstats_gc_completed_cycle''
       ''Number of GC cycle completed.'' mt20) (\<lambda>ggGcCompletedCycle mt21.
     orReturn (Int64ObservableGauge k ''go_memstats_gc_pause_total''
       ''Number of GC-stop-the-world caused in Nanosecond.'' mt21) (\<lambda>ggGcPauseTotal mt22.
     (Inr \<lparr>ggSysBytes = ggSysBytes,
           ggAllocBytesTotal = ggAllocBytesTotal,
           ggHeapAllocBytes = ggHeapAllocBytes,
           ggFreesTotal = ggFreesTotal,
           ggGcSysBytes = ggGcSysBytes,
           ggHeapIdleBytes = ggHeapIdleBytes,
           ggInuseBytes = ggInuseBytes,
           ggHeapObjects = ggHeapObjects,
           ggHeapReleasedBytes = ggHeapReleasedBytes,
           ggHeapSysBytes = ggHeapSysBytes,
           ggLastGcTimeSeconds = ggLastGcTimeSeconds,
           ggLookupsTotal = ggLookupsTotal,
           ggMallocsTotal = ggMallocsTotal,
           ggMCacheInuseBytes = ggMCacheInuseBytes,
           ggMCacheSysBytes = ggMCacheSysBytes,
           ggMspanInuseBytes = ggMspanInuseBytes,
           ggMspanSysBytes = ggMspanSysBytes,
           ggNextGcBytes = ggNextGcBytes,
           ggOtherSysBytes = ggOtherSysBytes,
           ggStackInuseBytes = ggStackInuseBytes,
           ggGcCompletedCycle = ggGcCompletedCycle,
           ggGcPauseTotal = ggGcPauseTotal\<rparr>, mt22)))))))))))))))))))))))"

text \<open>\<^verbatim>\<open>NewSysGauge\<close>.\<close>

definition NewSysGauge :: "sdk \<Rightarrow> meter \<Rightarrow> (error + sysGauges) \<times> meter" where
  "NewSysGauge k mt0 =
     orReturn (Int64ObservableGauge k ''go_threads'' ''Number of OS threads created.'' mt0) (\<lambda>ggThreads mt1.
     orReturn (Int64ObservableGauge k ''go_cgo'' ''Number of CGO calls.'' mt1) (\<lambda>ggCgo mt2.
     orReturn (Int64ObservableGauge k ''go_goroutines'' ''Number of goroutines.'' mt2) (\<lambda>ggGRoutines mt3.
     (Inr \<lparr>ggThreads = ggThreads, ggCgo = ggCgo, ggGRoutines = ggGRoutines\<rparr>, mt3))))"

text \<open>
  The callback \<^verbatim>\<open>cb\<close> of \<^verbatim>\<open>memGauges.Collect\<close>: what it hands to
  \<^verbatim>\<open>observer.ObserveInt64\<close>, in order, and the runtime after it. It returns \<^verbatim>\<open>nil\<close> on
  its only path.
\<close>

definition memGauges_cb :: "memGauges \<Rightarrow> runtime \<Rightarrow> (gauge \<times> int) list \<times> runtime" where
  "memGauges_cb m rt =
     (case ReadMemStats rt of (stats, rt') \<Rightarrow>
       ([(ggSysBytes m, int64 (Sys stats)),
         (ggAllocBytesTotal m, int64 (TotalAlloc stats)),
         (ggHeapAllocBytes m, int64 (HeapAlloc stats)),
         (ggFreesTotal m, int64 (Frees stats)),
         (ggGcSysBytes m, int64 (GCSys stats)),
         (ggHeapIdleBytes m, int64 (HeapIdle stats)),
         (ggInuseBytes m, int64 (HeapInuse stats)),
         (ggHeapObjects m, int64 (HeapObjects stats)),
         (ggHeapReleasedBytes m, int64 (HeapReleased stats)),
         (ggHeapSysBytes m, int64 (HeapSys stats)),
         (ggLastGcTimeSeconds m, int64 (LastGC stats)),
         (ggLookupsTotal m, int64 (Lookups stats)),
         (ggMallocsTotal m, int64 (Mallocs stats)),
         (ggMCacheInuseBytes m, int64 (MCacheInuse stats)),
         (ggMCacheSysBytes m, int64 (MCacheSys stats)),
         (ggMspanInuseBytes m, int64 (MSpanInuse stats)),
         (ggMspanSysBytes m, int64 (MSpanSys stats)),
         (ggNextGcBytes m, int64 (NextGC stats)),
         (ggOtherSysBytes m, int64 (OtherSys stats)),
         (ggStackInuseBytes m, int64 (StackSys stats)),
         (ggGcCompletedCycle m, int64_of_uint32 (NumGC stats)),
         (ggGcPauseTotal m, int64 (PauseTotalNs stats))], rt'))"

text \<open>The callback of \<^verbatim>\<open>sysGauges.Collect\<close>.\<close>

definition sysGauges_cb :: "sysGauges \<Rightarrow> runtime \<Rightarrow> (gauge \<times> int) list \<times> runtime" where
  "sysGauges_cb s rt =
     ([(ggThreads s, int64 (NumCPU rt)),
       (ggCgo s, int64 (NumCgoCall rt)),
       (ggGRoutines s, int64 (NumGoroutine rt))], rt)"



section \<open>Gauge creation in sequence\<close>

text \<open>
  The names and descriptions that \<^verbatim>\<open>NewMemGauges\<close> and \<^verbatim>\<open>NewSysGauge\<close> pass to
  \<^verbatim>\<open>meter.Int64ObservableGauge\<close>, in the order of the calls.
\<close>

definition memGaugeNames :: "(string \<times> string) list" where
  "memGaugeNames =
     [(''go_memstats_sys_bytes'',
       ''Number of bytes obtained from system.''),
      (''go_memstats_alloc_bytes_total'',
       ''Total number of bytes allocated, even if freed.''),
      (''go_memstats_heap_alloc_bytes'',
       ''Number of heap bytes allocated and still in use.''),
      (''go_memstats_frees_total'',
       ''Total number of frees.''),
      (''go_memstats_gc_sys_bytes'',
       ''Number of bytes used for garbage collection system metadata.''),
      (''go_memstats_heap_idle_bytes'',
       ''Number of heap bytes waiting to be used.''),
      (''go_memstats_heap_inuse_bytes'',
       ''Number of heap bytes that are in use.''),
      (''go_memstats_heap_objects'',
       ''Number of allocated objects.''),
      (''go_memstats_heap_released_bytes'',
       ''Number of heap bytes released to OS.''),
      (''go_memstats_heap_sys_bytes'',
       ''Number of heap bytes obtained from system.''),
      (''go_memstats_last_gc_time_seconds'',
       ''Number of seconds since 1970 of last garbage collection.''),
      (''go_memstats_lookups_total'',
       ''Total number of pointer lookups.''),
      (''go_memstats_mallocs_total'',
       ''Total number of mallocs.''),
      (''go_memstats_mcache_inuse_bytes'',
       ''Number of bytes in use by mcache structures.''),
      (''go_memstats_mcache_sys_bytes'',
       ''Number of bytes used for mcache structures obtained from system.''),
      (''go_memstats_mspan_inuse_bytes'',
       ''Number of bytes in use by mspan structures.''),
      (''go_memstats_mspan_sys_bytes'',
       ''Number of bytes used for mspan structures obtained from system.''),
      (''go_memstats_next_gc_bytes'',
       ''Number of heap bytes when next garbage collection will take place.''),
      (''go_memstats_other_sys_bytes'',
       ''Number of bytes used for other system allocations.''),
      (''go_memstats_stack_inuse_bytes'',
       ''Number of bytes in use by the stack allocator.''),
      (''go_memstats_gc_completed_cycle'',
       ''Number of GC cycle completed.''),
      (''go_memstats_gc_pause_total'',
       ''Number of GC-stop-the-world caused in Nanosecond.'')]"

definition sysGaugeNames :: "(string \<times> string) list" where
  "sysGaugeNames =
     [(''go_threads'', ''Number of OS threads created.''),
      (''go_cgo'', ''Number of CGO calls.''),
      (''go_goroutines'', ''Number of goroutines.'')]"

text \<open>
  Going through such a list on a meter that holds the gauges \<open>gs\<close>: the first name the
  meter refuses, as the error it gives and the gauges that exist at that moment; none when
  every name is accepted.
\<close>

fun firstRefusal :: "sdk \<Rightarrow> gauge list \<Rightarrow> (string \<times> string) list \<Rightarrow> (error \<times> gauge list) option" where
  "firstRefusal k gs [] = None"
| "firstRefusal k gs ((name, description) # rest) =
     (case gaugeError k gs name of
        Some err \<Rightarrow> Some (err, gs)
      | None \<Rightarrow> firstRefusal k (gs @ [Gauge name description]) rest)"

text \<open>
  The constructors' pattern as a recursion over the list of names: create each gauge in
  turn and stop at the first error.
\<close>

fun createGauges :: "sdk \<Rightarrow> (string \<times> string) list \<Rightarrow> meter \<Rightarrow> (error + gauge list) \<times> meter" where
  "createGauges k [] mt = (Inr [], mt)"
| "createGauges k ((name, description) # rest) mt =
     orReturn (Int64ObservableGauge k name description mt) (\<lambda>g mt'.
     orReturn (createGauges k rest mt') (\<lambda>gs mt''. (Inr (g # gs), mt'')))"

text \<open>The collectors whose fields are the gauges of a list, in the order of the fields.\<close>

definition memGauges_of :: "gauge list \<Rightarrow> memGauges" where
  "memGauges_of gs =
     \<lparr>ggSysBytes = gs ! 0,
      ggAllocBytesTotal = gs ! 1,
      ggHeapAllocBytes = gs ! 2,
      ggFreesTotal = gs ! 3,
      ggGcSysBytes = gs ! 4,
      ggHeapIdleBytes = gs ! 5,
      ggInuseBytes = gs ! 6,
      ggHeapObjects = gs ! 7,
      ggHeapReleasedBytes = gs ! 8,
      ggHeapSysBytes = gs ! 9,
      ggLastGcTimeSeconds = gs ! 10,
      ggLookupsTotal = gs ! 11,
      ggMallocsTotal = gs ! 12,
      ggMCacheInuseBytes = gs ! 13,
      ggMCacheSysBytes = gs ! 14,
      ggMspanInuseBytes = gs ! 15,
      ggMspanSysBytes = gs ! 16,
      ggNextGcBytes = gs ! 17,
      ggOtherSysBytes = gs ! 18,
      ggStackInuseBytes = gs ! 19,
      ggGcCompletedCycle = gs ! 20,
      ggGcPauseTotal = gs ! 21\<rparr>"

definition sysGauges_of :: "gauge list \<Rightarrow> sysGauges" where
  "sysGauges_of gs = \<lparr>ggThreads = gs ! 0, ggCgo = gs ! 1, ggGRoutines = gs ! 2\<rparr>"

text \<open>The collector that \<^verbatim>\<open>NewMemGauges\<close> returns when every gauge is created.\<close>

definition created_memGauges :: memGauges where
  "created_memGauges =
     \<lparr>ggSysBytes = Gauge ''go_memstats_sys_bytes''
        ''Number of bytes obtained from system.'',
      ggAllocBytesTotal = Gauge ''go_memstats_alloc_bytes_total''
        ''Total number of bytes allocated, even if freed.'',
      ggHeapAllocBytes = Gauge ''go_memstats_heap_alloc_bytes''
        ''Number of heap bytes allocated and still in use.'',
      ggFreesTotal = Gauge ''go_memstats_frees_total''
        ''Total number of frees.'',
      ggGcSysBytes = Gauge ''go_memstats_gc_sys_bytes''
        ''Number of bytes used for garbage collection system metadata.'',
      ggHeapIdleBytes = Gauge ''go_memstats_heap_idle_bytes''
        ''Number of heap bytes waiting to be used.'',
      ggInuseBytes = Gauge ''go_memstats_heap_inuse_bytes''
        ''Number of heap bytes that are in use.'',
      ggHeapObjects = Gauge ''go_memstats_heap_objects''
        ''Number of allocated objects.'',
      ggHeapReleasedBytes = Gauge ''go_memstats_heap_released_bytes''
        ''Number of heap bytes released to OS.'',
      ggHeapSysBytes = Gauge ''go_memstats_heap_sys_bytes''
        ''Number of heap bytes obtained from system.'',
      ggLastGcTimeSeconds = Gauge ''go_memstats_last_gc_time_seconds''
        ''Number of seconds since 1970 of last garbage collection.'',
      ggLookupsTotal = Gauge ''go_memstats_lookups_total''
        ''Total number of pointer lookups.'',
      ggMallocsTotal = Gauge ''go_memstats_mallocs_total''
        ''Total number of mallocs.'',
      ggMCacheInuseBytes = Gauge ''go_memstats_mcache_inuse_bytes''
        ''Number of bytes in use by mcache structures.'',
      ggMCacheSysBytes = Gauge ''go_memstats_mcache_sys_bytes''
        ''Number of bytes used for mcache structures obtained from system.'',
      ggMspanInuseBytes = Gauge ''go_memstats_mspan_inuse_bytes''
        ''Number of bytes in use by mspan structures.'',
      ggMspanSysBytes = Gauge ''go_memstats_mspan_sys_bytes''
        ''Number of bytes used for mspan structures obtained from system.'',
      ggNextGcBytes = Gauge ''go_memstats_next_gc_bytes''
        ''Number of heap bytes when next garbage collection will take place.'',
      ggOtherSysBytes = Gauge ''go_memstats_other_sys_bytes''
        ''Number of bytes used for other system allocations.'',
      ggStackInuseBytes = Gauge ''go_memstats_stack_inuse_bytes''
        ''Number of bytes in use by the stack allocator.'',
      ggGcCompletedCycle = Gauge ''go_memstats_gc_completed_cycle''
        ''Number of GC cycle completed.'',
      ggGcPauseTotal = Gauge ''go_memstats_gc_pause_total''
        ''Number of GC-stop-the-world caused in Nanosecond.''\<rparr>"


section \<open>Sample inputs\<close>

text \<open>
  Three inner handlers: one that sets a status once and writes a body, one that calls
  \<^verbatim>\<open>WriteHeader\<close> twice, and one that panics after setting a status.
\<close>

definition teapot_handler :: handler where
  "teapot_handler r = ([CallHeader, CallWriteHeader 418, CallWrite [104, 105]], Returns)"

definition rewriting_handler :: handler where
  "rewriting_handler r = ([CallWriteHeader 404, CallWriteHeader 500], Returns)"

definition panicking_handler :: handler where
  "panicking_handler r = ([CallWriteHeader 500], Panics)"


text \<open>
  Collaborators for an endpoint that answers and for one that does not, a configuration
  with no cached connection, and a process in which only the default global provider
  has been allocated.
\<close>

definition reachable :: collaborators where
  "reachable =
     \<lparr>NewExporterGRPCClient = (\<lambda>cfgs n. (Some (Conn n), None)),
      otlpmetricgrpc_New = (\<lambda>c n. (Some (Exporter n), None))\<rparr>"

definition unreachable :: collaborators where
  "unreachable =
     \<lparr>NewExporterGRPCClient = (\<lambda>cfgs n. (None, Some (Error ''connection refused''))),
      otlpmetricgrpc_New = (\<lambda>c n. (None, Some (Error ''no exporter'')))\<rparr>"

definition sample_cfgs :: "bool \<Rightarrow> Configs" where
  "sample_cfgs enabled =
     \<lparr>Enabled = enabled, OTLPExporterConn = None, MetricsProvider = None, Logger = [],
      Name = ''svc'', Namespace = ''ns'', Environment = ''dev''\<rparr>"

definition fresh_process :: process where
  "fresh_process =
     \<lparr>global = MeterProvider 0 None [], allocated = 1, factoryCalls = 0, exporterConns = []\<rparr>"


text \<open>
  A meter implementation that accepts everything and one that refuses a gauge name or a
  callback it already holds; a meter on which two of the names are taken; a snapshot of
  the memory statistics; a runtime that returns a given snapshot on every read.
\<close>

definition accepting :: sdk where
  "accepting = \<lparr>gaugeError = (\<lambda>gs name. None), callbackError = (\<lambda>cbs cb. None)\<rparr>"

definition unique_names :: sdk where
  "unique_names =
     \<lparr>gaugeError = (\<lambda>gs name. if name \<in> gauge_name ` set gs
                        then Some (Error ''duplicate instrument'') else None),
      callbackError = (\<lambda>cbs cb. if cb \<in> set cbs
                        then Some (Error ''duplicate callback'') else None)\<rparr>"

definition taken_meter :: meter where
  "taken_meter =
     \<lparr>gauges = [Gauge ''go_memstats_alloc_bytes_total'' ''taken'', Gauge ''go_cgo'' ''taken''],
      callbacks = []\<rparr>"

definition calm_stats :: MemStats where
  "calm_stats = \<lparr>Sys = 9000, TotalAlloc = 1001, HeapAlloc = 700, Frees = 1003, GCSys = 1004, HeapIdle = 1005, HeapInuse = 800, HeapObjects = 1007, HeapReleased = 1008, HeapSys = 1009, LastGC = 1010, Lookups = 1011, Mallocs = 1012, MCacheInuse = 1013, MCacheSys = 1014, MSpanInuse = 1015, MSpanSys = 1016, NextGC = 1017, OtherSys = 1018, StackSys = 64, NumGC = 1020, PauseTotalNs = 1021, StackInuse = 48\<rparr>"

definition sample_runtime :: "MemStats \<Rightarrow> runtime" where
  "sample_runtime stats =
     \<lparr>memReads = 0, memStats = (\<lambda>n. stats), NumCPU = 8, NumCgoCall = 0, NumGoroutine = 12\<rparr>"


section \<open>Properties of the HTTP middleware\<close>

lemma statusCode_foldl:
  "statusCode (foldl writer_step rw calls) =
     (if header_codes calls = [] then statusCode rw else last (header_codes calls))"
proof (induction calls arbitrary: rw)
  case Nil
  show ?case by simp
next
  case (Cons c cs)
  show ?case by (cases c) (simp_all add: Cons.IH WriteHeader_def)
qed

lemma Handler_Returns:
  assumes "snd (h r) = Returns"
  shows "Handler h r elapsed m =
     (Returns, foldl writer_step \<lparr>ResponseWriter = [], statusCode = 200\<rparr> (fst (h r)),
      m\<lparr>requestDuration := requestDuration m @
           [(elapsed, [(''method'', AString (Method r)), (''uri'', AString (RequestURI r)),
              (''statusCode'', AInt (statusCode (foldl writer_step \<lparr>ResponseWriter = [], statusCode = 200\<rparr> (fst (h r)))))])],
         requestCounter := requestCounter m @
           [(1, [(''method'', AString (Method r)), (''uri'', AString (RequestURI r)),
              (''statusCode'', AInt (statusCode (foldl writer_step \<lparr>ResponseWriter = [], statusCode = 200\<rparr> (fst (h r)))))])]\<rparr>)"
  using assms by (cases "h r") (simp add: Handler_def ServeHTTP_def Let_def)

lemma Handler_Panics:
  assumes "snd (h r) = Panics"
  shows "Handler h r elapsed m =
     (Panics, foldl writer_step \<lparr>ResponseWriter = [], statusCode = 200\<rparr> (fst (h r)), m)"
  using assms by (cases "h r") (simp add: Handler_def ServeHTTP_def Let_def)

lemma serve_total:
  "\<forall>x \<in> set rs. snd (h (fst x)) = Returns \<Longrightarrow>
     counter_total (serve h rs m) = counter_total m + int (length rs)"
proof (induction rs arbitrary: m)
  case Nil
  show ?case by simp
next
  case (Cons x rs)
  obtain r e where x: "x = (r, e)" by (cases x)
  from Cons.prems x have ret: "snd (h r) = Returns" by simp
  from Cons.prems have rest: "\<forall>x \<in> set rs. snd (h (fst x)) = Returns" by simp
  have "counter_total (snd (snd (Handler h r e m))) = counter_total m + 1"
    by (simp add: Handler_Returns [of h r, OF ret] counter_total_def)
  then show ?case
    by (simp add: x Cons.IH [OF rest])
qed

lemma serve_length:
  "\<forall>x \<in> set rs. snd (h (fst x)) = Returns \<Longrightarrow>
     length (requestCounter (serve h rs m)) = length (requestCounter m) + length rs
   \<and> length (requestDuration (serve h rs m)) = length (requestDuration m) + length rs"
proof (induction rs arbitrary: m)
  case Nil
  show ?case by simp
next
  case (Cons x rs)
  obtain r e where x: "x = (r, e)" by (cases x)
  from Cons.prems x have ret: "snd (h r) = Returns" by simp
  from Cons.prems have rest: "\<forall>x \<in> set rs. snd (h (fst x)) = Returns" by simp
  show ?case
    by (simp add: x Cons.IH [OF rest] Handler_Returns [of h r, OF ret])
qed


text \<open>
  C1 (as amended). For every request whose inner handler returns, \<^verbatim>\<open>Handler\<close> adds
  exactly one increment of 1 to the request counter and exactly one duration observation
  to the histogram, both with the same attributes, whose keys are \<^verbatim>\<open>method\<close>,
  \<^verbatim>\<open>uri\<close> (the raw request URI) and \<^verbatim>\<open>statusCode\<close>; after N such requests the
  counter total has grown by N and each instrument holds N more measurements.
\<close>

theorem Handler_records_each_returned_request:
  "(snd (h r) = Returns \<longrightarrow>
      fst (Handler h r elapsed m) = Returns
    \<and> requestCounter (snd (snd (Handler h r elapsed m))) =
        requestCounter m @
          [(1, [(''method'', AString (Method r)), (''uri'', AString (RequestURI r)),
                (''statusCode'', AInt (statusCode (fst (snd (Handler h r elapsed m)))))])]
    \<and> requestDuration (snd (snd (Handler h r elapsed m))) =
        requestDuration m @
          [(elapsed, [(''method'', AString (Method r)), (''uri'', AString (RequestURI r)),
                (''statusCode'', AInt (statusCode (fst (snd (Handler h r elapsed m)))))])])
   \<and> ((\<forall>x \<in> set rs. snd (h (fst x)) = Returns) \<longrightarrow>
      counter_total (serve h rs m) = counter_total m + int (length rs)
    \<and> length (requestCounter (serve h rs m)) = length (requestCounter m) + length rs
    \<and> length (requestDuration (serve h rs m)) = length (requestDuration m) + length rs)"
proof (intro conjI impI)
  assume ret: "snd (h r) = Returns"
  note eq = Handler_Returns [of h r, OF ret, of elapsed m]
  show "fst (Handler h r elapsed m) = Returns"
    by (simp add: eq)
  show "requestCounter (snd (snd (Handler h r elapsed m))) =
        requestCounter m @
          [(1, [(''method'', AString (Method r)), (''uri'', AString (RequestURI r)),
                (''statusCode'', AInt (statusCode (fst (snd (Handler h r elapsed m)))))])]"
    by (simp add: eq)
  show "requestDuration (snd (snd (Handler h r elapsed m))) =
        requestDuration m @
          [(elapsed, [(''method'', AString (Method r)), (''uri'', AString (RequestURI r)),
                (''statusCode'', AInt (statusCode (fst (snd (Handler h r elapsed m)))))])]"
    by (simp add: eq)
next
  assume all: "\<forall>x \<in> set rs. snd (h (fst x)) = Returns"
  show "counter_total (serve h rs m) = counter_total m + int (length rs)"
    by (rule serve_total [OF all])
  show "length (requestCounter (serve h rs m)) = length (requestCounter m) + length rs"
    using serve_length [OF all] by simp
  show "length (requestDuration (serve h rs m)) = length (requestDuration m) + length rs"
    using serve_length [OF all] by simp
qed

theorem Handler_records_each_returned_request_witness:
  "snd (teapot_handler \<lparr>Method = ''GET'', RequestURI = ''/tea?cup=1''\<rparr>) = Returns
   \<and> snd (teapot_handler \<lparr>Method = ''POST'', RequestURI = ''/pot''\<rparr>) = Returns
   \<and> requestCounter (snd (snd (Handler teapot_handler \<lparr>Method = ''GET'', RequestURI = ''/tea?cup=1''\<rparr> 7
         \<lparr>requestCounter = [], requestDuration = []\<rparr>))) =
       [(1, [(''method'', AString ''GET''), (''uri'', AString ''/tea?cup=1''),
             (''statusCode'', AInt 418)])]
   \<and> counter_total (serve teapot_handler
         [(\<lparr>Method = ''GET'', RequestURI = ''/tea?cup=1''\<rparr>, 7),
          (\<lparr>Method = ''POST'', RequestURI = ''/pot''\<rparr>, 9)]
         \<lparr>requestCounter = [], requestDuration = []\<rparr>) = 2"
  using Handler_records_each_returned_request
    [where h = teapot_handler and r = "\<lparr>Method = ''GET'', RequestURI = ''/tea?cup=1''\<rparr>"
       and rs = "[(\<lparr>Method = ''GET'', RequestURI = ''/tea?cup=1''\<rparr>, 7),
                  (\<lparr>Method = ''POST'', RequestURI = ''/pot''\<rparr>, 9)]"
       and m = "\<lparr>requestCounter = [], requestDuration = []\<rparr>" and elapsed = 7]
  by (simp add: teapot_handler_def Handler_def ServeHTTP_def WriteHeader_def counter_total_def)

text \<open>
  The claim names the third key \<^verbatim>\<open>status_code\<close>; the key the source writes is
  \<^verbatim>\<open>statusCode\<close>.
\<close>

theorem status_code_key_counterexample:
  "map fst (snd (hd (requestCounter (snd (snd (Handler teapot_handler
       \<lparr>Method = ''GET'', RequestURI = ''/tea?cup=1''\<rparr> 7
       \<lparr>requestCounter = [], requestDuration = []\<rparr>)))))) \<noteq> [''method'', ''uri'', ''status_code'']"
  by (simp add: teapot_handler_def Handler_def ServeHTTP_def WriteHeader_def)

text \<open>
  C2 (as amended). The status captured by the decorated writer is the argument of the
  last \<^verbatim>\<open>WriteHeader\<close> call the handler makes, and 200 if it makes none; that is the
  value of the \<^verbatim>\<open>statusCode\<close> attribute on both measurements of a returned request.
\<close>

theorem captured_status_is_last_WriteHeader:
  "statusCode (fst (snd (Handler h r elapsed m))) =
     (if header_codes (fst (h r)) = [] then 200 else last (header_codes (fst (h r))))
   \<and> (snd (h r) = Returns \<longrightarrow>
        map_of (snd (last (requestCounter (snd (snd (Handler h r elapsed m)))))) ''statusCode'' =
          Some (AInt (if header_codes (fst (h r)) = [] then 200 else last (header_codes (fst (h r)))))
      \<and> map_of (snd (last (requestDuration (snd (snd (Handler h r elapsed m)))))) ''statusCode'' =
          Some (AInt (if header_codes (fst (h r)) = [] then 200 else last (header_codes (fst (h r))))))"
proof -
  have st: "statusCode (fst (snd (Handler h r elapsed m))) =
     (if header_codes (fst (h r)) = [] then 200 else last (header_codes (fst (h r))))"
  proof (cases "snd (h r)")
    case Returns
    show ?thesis
      by (simp add: Handler_Returns [of h r, OF Returns] statusCode_foldl)
  next
    case Panics
    show ?thesis
      by (simp add: Handler_Panics [of h r, OF Panics] statusCode_foldl)
  qed
  have rec: "snd (h r) = Returns \<Longrightarrow>
        map_of (snd (last (requestCounter (snd (snd (Handler h r elapsed m)))))) ''statusCode'' =
          Some (AInt (statusCode (fst (snd (Handler h r elapsed m)))))
      \<and> map_of (snd (last (requestDuration (snd (snd (Handler h r elapsed m)))))) ''statusCode'' =
          Some (AInt (statusCode (fst (snd (Handler h r elapsed m)))))"
    by (simp add: Handler_Returns [of h r])
  show ?thesis
    using st rec by simp
qed

theorem captured_status_is_last_WriteHeader_witness:
  "snd (rewriting_handler \<lparr>Method = ''GET'', RequestURI = ''/a''\<rparr>) = Returns
   \<and> header_codes (fst (rewriting_handler \<lparr>Method = ''GET'', RequestURI = ''/a''\<rparr>)) = [404, 500]
   \<and> statusCode (fst (snd (Handler rewriting_handler \<lparr>Method = ''GET'', RequestURI = ''/a''\<rparr> 7
        \<lparr>requestCounter = [], requestDuration = []\<rparr>))) = 500
   \<and> map_of (snd (last (requestCounter (snd (snd (Handler rewriting_handler
        \<lparr>Method = ''GET'', RequestURI = ''/a''\<rparr> 7
        \<lparr>requestCounter = [], requestDuration = []\<rparr>)))))) ''statusCode'' = Some (AInt 500)"
  using captured_status_is_last_WriteHeader
    [of rewriting_handler "\<lparr>Method = ''GET'', RequestURI = ''/a''\<rparr>" 7
        "\<lparr>requestCounter = [], requestDuration = []\<rparr>"]
  by (simp add: rewriting_handler_def)

text \<open>
  A handler that calls \<^verbatim>\<open>WriteHeader(404)\<close> and then \<^verbatim>\<open>WriteHeader(500)\<close>: the first
  argument is 404, the captured and recorded status is 500.
\<close>

theorem first_WriteHeader_counterexample:
  "hd (header_codes (fst (rewriting_handler \<lparr>Method = ''GET'', RequestURI = ''/a''\<rparr>))) = 404
   \<and> statusCode (fst (snd (Handler rewriting_handler \<lparr>Method = ''GET'', RequestURI = ''/a''\<rparr> 7
        \<lparr>requestCounter = [], requestDuration = []\<rparr>))) = 500
   \<and> requestCounter (snd (snd (Handler rewriting_handler \<lparr>Method = ''GET'', RequestURI = ''/a''\<rparr> 7
        \<lparr>requestCounter = [], requestDuration = []\<rparr>))) =
       [(1, [(''method'', AString ''GET''), (''uri'', AString ''/a''), (''statusCode'', AInt 500)])]"
  by (simp add: rewriting_handler_def Handler_def ServeHTTP_def WriteHeader_def)

text \<open>
  C7 (as amended). For every request whose inner handler panics, the panic leaves
  \<^verbatim>\<open>Handler\<close> before the recording calls: neither instrument receives a measurement
  for that request, and the panic reaches the caller.
\<close>

theorem panicking_handler_not_recorded:
  "snd (h r) = Panics \<Longrightarrow>
     fst (Handler h r elapsed m) = Panics \<and> snd (snd (Handler h r elapsed m)) = m
     \<and> serve h [(r, elapsed)] m = m"
  by (simp add: Handler_Panics [of h r])

theorem panicking_handler_not_recorded_witness:
  "snd (panicking_handler \<lparr>Method = ''GET'', RequestURI = ''/a''\<rparr>) = Panics
   \<and> counter_total (serve panicking_handler [(\<lparr>Method = ''GET'', RequestURI = ''/a''\<rparr>, 7)]
        \<lparr>requestCounter = [], requestDuration = []\<rparr>) = 0"
  using panicking_handler_not_recorded
    [of panicking_handler "\<lparr>Method = ''GET'', RequestURI = ''/a''\<rparr>" 7
        "\<lparr>requestCounter = [], requestDuration = []\<rparr>"]
  by (simp add: panicking_handler_def counter_total_def)

text \<open>
  A handler that panics: the counter and the histogram stay empty.
\<close>

theorem panicking_handler_counterexample:
  "fst (Handler panicking_handler \<lparr>Method = ''GET'', RequestURI = ''/a''\<rparr> 7
        \<lparr>requestCounter = [], requestDuration = []\<rparr>) = Panics
   \<and> requestCounter (snd (snd (Handler panicking_handler \<lparr>Method = ''GET'', RequestURI = ''/a''\<rparr> 7
        \<lparr>requestCounter = [], requestDuration = []\<rparr>))) = []
   \<and> requestDuration (snd (snd (Handler panicking_handler \<lparr>Method = ''GET'', RequestURI = ''/a''\<rparr> 7
        \<lparr>requestCounter = [], requestDuration = []\<rparr>))) = []"
  by (simp add: panicking_handler_def Handler_def ServeHTTP_def WriteHeader_def)


section \<open>Properties of the providers\<close>

lemma noop_Install_result:
  "noop_Install cfgs p =
     (Inr (MeterProvider (allocated p) None []),
      cfgs\<lparr>MetricsProvider := Some (MeterProvider (allocated p) None [])\<rparr>,
      p\<lparr>allocated := allocated p + 1\<rparr>)"
  by (simp add: noop_Install_def Let_def)

lemma otlp_Install_factory_error:
  assumes "OTLPExporterConn cfgs = None"
    and "snd (NewExporterGRPCClient ext cfgs (factoryCalls p)) = Some err"
  shows "otlp_Install ext cfgs p =
     (Inl err, cfgs\<lparr>Logger := Logger cfgs @ [(''failed to create grpc exporter'', err)]\<rparr>,
      p\<lparr>factoryCalls := factoryCalls p + 1\<rparr>)"
  using assms
  by (cases "NewExporterGRPCClient ext cfgs (factoryCalls p)") (simp add: otlp_Install_def)

lemma otlp_Install_global_error:
  "fst (otlp_Install ext cfgs p) = Inl err \<Longrightarrow> global (snd (snd (otlp_Install ext cfgs p))) = global p"
  by (auto simp: otlp_Install_def Let_def split: if_splits prod.splits option.splits)

lemma otlp_Install_global_ok:
  "fst (otlp_Install ext cfgs p) = Inr prov \<Longrightarrow>
     global (snd (snd (otlp_Install ext cfgs p))) = prov
   \<and> MetricsProvider (fst (snd (otlp_Install ext cfgs p))) = Some prov"
  by (auto simp: otlp_Install_def Let_def split: if_splits prod.splits option.splits)

lemma otlp_Install_factoryCalls:
  "factoryCalls (snd (snd (otlp_Install ext cfgs p))) =
     (if OTLPExporterConn cfgs = None then factoryCalls p + 1 else factoryCalls p)"
  by (auto simp: otlp_Install_def Let_def split: if_splits prod.splits option.splits)

lemma otlp_Install_stores_conn:
  "OTLPExporterConn cfgs = None \<Longrightarrow>
   NewExporterGRPCClient ext cfgs (factoryCalls p) = (Some c, None) \<Longrightarrow>
     OTLPExporterConn (fst (snd (otlp_Install ext cfgs p))) = Some c"
  by (auto simp: otlp_Install_def Let_def split: if_splits prod.splits option.splits)

lemma otlp_Install_reuses_conn:
  "OTLPExporterConn cfgs = Some c \<Longrightarrow>
     OTLPExporterConn (fst (snd (otlp_Install ext cfgs p))) = Some c
   \<and> factoryCalls (snd (snd (otlp_Install ext cfgs p))) = factoryCalls p
   \<and> exporterConns (snd (snd (otlp_Install ext cfgs p))) = exporterConns p @ [Some c]"
  by (auto simp: otlp_Install_def Let_def split: if_splits prod.splits option.splits)

lemma otlp_Install_exporter_error:
  assumes "OTLPExporterConn cfgs = Some c"
    and "snd (otlpmetricgrpc_New ext (Some c) (length (exporterConns p))) = Some err"
  shows "fst (otlp_Install ext cfgs p) = Inl err"
  using assms
  by (cases "otlpmetricgrpc_New ext (Some c) (length (exporterConns p))") (simp add: otlp_Install_def Let_def)


text \<open>
  C3 (as amended). When \<^verbatim>\<open>Install\<close> returns an error, the global provider is the one
  from before. When it succeeds with \<^verbatim>\<open>Enabled\<close> set, the global provider afterwards is
  the provider returned, which is also stored in the configuration. When \<^verbatim>\<open>Enabled\<close> is
  not set, \<^verbatim>\<open>Install\<close> succeeds, stores the returned provider in the configuration
  only, and leaves the global provider as it was.
\<close>

theorem global_provider_after_Install:
  "(fst (Install ext cfgs p) = Inl err \<longrightarrow>
      global (snd (snd (Install ext cfgs p))) = global p)
   \<and> (Enabled cfgs \<and> fst (Install ext cfgs p) = Inr prov \<longrightarrow>
      global (snd (snd (Install ext cfgs p))) = prov
    \<and> MetricsProvider (fst (snd (Install ext cfgs p))) = Some prov)
   \<and> (\<not> Enabled cfgs \<longrightarrow>
      fst (Install ext cfgs p) = Inr (MeterProvider (allocated p) None [])
    \<and> MetricsProvider (fst (snd (Install ext cfgs p))) = Some (MeterProvider (allocated p) None [])
    \<and> global (snd (snd (Install ext cfgs p))) = global p)"
proof (intro conjI impI)
  assume "fst (Install ext cfgs p) = Inl err"
  then show "global (snd (snd (Install ext cfgs p))) = global p"
    by (cases "Enabled cfgs") (simp_all add: Install_def otlp_Install_global_error noop_Install_result)
next
  assume a: "Enabled cfgs \<and> fst (Install ext cfgs p) = Inr prov"
  then have en: "Enabled cfgs" and ok: "fst (Install ext cfgs p) = Inr prov"
    by simp_all
  from en ok have "fst (otlp_Install ext cfgs p) = Inr prov"
    by (simp add: Install_def)
  from otlp_Install_global_ok [OF this] en
  show "global (snd (snd (Install ext cfgs p))) = prov"
    and "MetricsProvider (fst (snd (Install ext cfgs p))) = Some prov"
    by (simp_all add: Install_def)
next
  assume d: "\<not> Enabled cfgs"
  then show "fst (Install ext cfgs p) = Inr (MeterProvider (allocated p) None [])"
    and "MetricsProvider (fst (snd (Install ext cfgs p))) = Some (MeterProvider (allocated p) None [])"
    and "global (snd (snd (Install ext cfgs p))) = global p"
    by (simp_all add: Install_def noop_Install_result)
qed

theorem global_provider_after_Install_witness:
  "fst (Install unreachable (sample_cfgs True) fresh_process) = Inl (Error ''connection refused'')
   \<and> global (snd (snd (Install unreachable (sample_cfgs True) fresh_process))) = global fresh_process
   \<and> Enabled (sample_cfgs True)
   \<and> fst (Install reachable (sample_cfgs True) fresh_process) =
       Inr (MeterProvider 1 (Some (Some (Exporter 0))) (otlp_resource (sample_cfgs True)))
   \<and> global (snd (snd (Install reachable (sample_cfgs True) fresh_process))) =
       MeterProvider 1 (Some (Some (Exporter 0))) (otlp_resource (sample_cfgs True))
   \<and> \<not> Enabled (sample_cfgs False)
   \<and> global (snd (snd (Install reachable (sample_cfgs False) fresh_process))) = global fresh_process"
proof -
  have 1: "fst (Install unreachable (sample_cfgs True) fresh_process) = Inl (Error ''connection refused'')"
    by (simp add: Install_def otlp_Install_def unreachable_def sample_cfgs_def fresh_process_def)
  have 2: "fst (Install reachable (sample_cfgs True) fresh_process) =
       Inr (MeterProvider 1 (Some (Some (Exporter 0))) (otlp_resource (sample_cfgs True)))"
    by (simp add: Install_def otlp_Install_def reachable_def sample_cfgs_def fresh_process_def
          otlp_resource_def Let_def)
  have 3: "Enabled (sample_cfgs True)" "\<not> Enabled (sample_cfgs False)"
    by (simp_all add: sample_cfgs_def)
  show ?thesis
    using 1 2 3
      global_provider_after_Install [where ext = unreachable and cfgs = "sample_cfgs True"
        and p = fresh_process and err = "Error ''connection refused''"]
      global_provider_after_Install [where ext = reachable and cfgs = "sample_cfgs True"
        and p = fresh_process
        and prov = "MeterProvider 1 (Some (Some (Exporter 0))) (otlp_resource (sample_cfgs True))"]
      global_provider_after_Install [where ext = reachable and cfgs = "sample_cfgs False"
        and p = fresh_process]
    by simp
qed

text \<open>
  \<^verbatim>\<open>Install\<close> with \<^verbatim>\<open>Enabled\<close> not set succeeds and returns a new provider, and the
  global provider is still the earlier one.
\<close>

theorem noop_Install_global_counterexample:
  "\<not> Enabled (sample_cfgs False)
   \<and> fst (Install reachable (sample_cfgs False) fresh_process) = Inr (MeterProvider 1 None [])
   \<and> global (snd (snd (Install reachable (sample_cfgs False) fresh_process))) = MeterProvider 0 None []
   \<and> global (snd (snd (Install reachable (sample_cfgs False) fresh_process))) \<noteq> MeterProvider 1 None []"
  by (simp add: Install_def noop_Install_def sample_cfgs_def fresh_process_def Let_def)

text \<open>
  C4. \<^verbatim>\<open>Install\<close> chooses by the flag \<^verbatim>\<open>Enabled\<close> alone. With the flag not set it
  is \<^verbatim>\<open>noop.Install\<close>, which returns a provider without reader and no error. With the
  flag set it is \<^verbatim>\<open>otlp.Install\<close>, result and effects alike, so an error of the
  connection factory or of the exporter's construction is the error the caller gets.
\<close>

theorem Install_dispatches_on_Enabled:
  "(\<not> Enabled cfgs \<longrightarrow>
      Install ext cfgs p = noop_Install cfgs p
    \<and> fst (Install ext cfgs p) = Inr (MeterProvider (allocated p) None []))
   \<and> (Enabled cfgs \<longrightarrow>
      Install ext cfgs p = otlp_Install ext cfgs p
    \<and> (OTLPExporterConn cfgs = None
         \<and> snd (NewExporterGRPCClient ext cfgs (factoryCalls p)) = Some err \<longrightarrow>
           fst (Install ext cfgs p) = Inl err)
    \<and> (OTLPExporterConn cfgs = Some c
         \<and> snd (otlpmetricgrpc_New ext (Some c) (length (exporterConns p))) = Some err \<longrightarrow>
           fst (Install ext cfgs p) = Inl err))"
  by (simp add: Install_def noop_Install_result otlp_Install_factory_error
        otlp_Install_exporter_error)

theorem Install_dispatches_on_Enabled_witness:
  "\<not> Enabled (sample_cfgs False)
   \<and> fst (Install unreachable (sample_cfgs False) fresh_process) = Inr (MeterProvider 1 None [])
   \<and> Enabled (sample_cfgs True)
   \<and> OTLPExporterConn (sample_cfgs True) = None
   \<and> snd (NewExporterGRPCClient unreachable (sample_cfgs True) (factoryCalls fresh_process)) =
       Some (Error ''connection refused'')
   \<and> fst (Install unreachable (sample_cfgs True) fresh_process) = Inl (Error ''connection refused'')
   \<and> Enabled ((sample_cfgs True)\<lparr>OTLPExporterConn := Some (Conn 5)\<rparr>)
   \<and> snd (otlpmetricgrpc_New unreachable (Some (Conn 5)) (length (exporterConns fresh_process))) =
       Some (Error ''no exporter'')
   \<and> fst (Install unreachable ((sample_cfgs True)\<lparr>OTLPExporterConn := Some (Conn 5)\<rparr>) fresh_process) =
       Inl (Error ''no exporter'')"
proof -
  have h: "\<not> Enabled (sample_cfgs False)" "Enabled (sample_cfgs True)"
    "OTLPExporterConn (sample_cfgs True) = None"
    "snd (NewExporterGRPCClient unreachable (sample_cfgs True) (factoryCalls fresh_process)) =
       Some (Error ''connection refused'')"
    "Enabled ((sample_cfgs True)\<lparr>OTLPExporterConn := Some (Conn 5)\<rparr>)"
    "OTLPExporterConn ((sample_cfgs True)\<lparr>OTLPExporterConn := Some (Conn 5)\<rparr>) = Some (Conn 5)"
    "snd (otlpmetricgrpc_New unreachable (Some (Conn 5)) (length (exporterConns fresh_process))) =
       Some (Error ''no exporter'')"
    "allocated fresh_process = 1"
    by (simp_all add: sample_cfgs_def unreachable_def fresh_process_def)
  show ?thesis
    using h
      Install_dispatches_on_Enabled [where ext = unreachable and cfgs = "sample_cfgs False"
        and p = fresh_process]
      Install_dispatches_on_Enabled [where ext = unreachable and cfgs = "sample_cfgs True"
        and p = fresh_process and err = "Error ''connection refused''"]
      Install_dispatches_on_Enabled [where ext = unreachable
        and cfgs = "(sample_cfgs True)\<lparr>OTLPExporterConn := Some (Conn 5)\<rparr>"
        and p = fresh_process and err = "Error ''no exporter''" and c = "Conn 5"]
    by (simp add: Install_def)
qed

text \<open>
  C5. \<^verbatim>\<open>otlp.Install\<close> calls the connection factory once when the configuration holds
  no connection and not at all when it holds one. A connection the factory returns is
  stored in the configuration, and a further \<^verbatim>\<open>otlp.Install\<close> on that configuration
  builds its exporter on the same connection without calling the factory. \<^verbatim>\<open>Install\<close>
  with \<^verbatim>\<open>Enabled\<close> not set never calls the factory.
\<close>

theorem connection_factory_called_only_without_cached_connection:
  "factoryCalls (snd (snd (otlp_Install ext cfgs p))) =
     (if OTLPExporterConn cfgs = None then factoryCalls p + 1 else factoryCalls p)
   \<and> (OTLPExporterConn cfgs = None
       \<and> NewExporterGRPCClient ext cfgs (factoryCalls p) = (Some c, None) \<longrightarrow>
         OTLPExporterConn (fst (snd (otlp_Install ext cfgs p))) = Some c
       \<and> factoryCalls (snd (snd (otlp_Install ext (fst (snd (otlp_Install ext cfgs p)))
                                    (snd (snd (otlp_Install ext cfgs p)))))) = factoryCalls p + 1
       \<and> last (exporterConns (snd (snd (otlp_Install ext (fst (snd (otlp_Install ext cfgs p)))
                                    (snd (snd (otlp_Install ext cfgs p))))))) = Some c)
   \<and> (OTLPExporterConn cfgs = Some c \<longrightarrow>
         OTLPExporterConn (fst (snd (otlp_Install ext cfgs p))) = Some c
       \<and> factoryCalls (snd (snd (otlp_Install ext cfgs p))) = factoryCalls p
       \<and> exporterConns (snd (snd (otlp_Install ext cfgs p))) = exporterConns p @ [Some c])
   \<and> (\<not> Enabled cfgs \<longrightarrow>
         factoryCalls (snd (snd (Install ext cfgs p))) = factoryCalls p
       \<and> OTLPExporterConn (fst (snd (Install ext cfgs p))) = OTLPExporterConn cfgs)"
proof (intro conjI impI)
  show "factoryCalls (snd (snd (otlp_Install ext cfgs p))) =
     (if OTLPExporterConn cfgs = None then factoryCalls p + 1 else factoryCalls p)"
    by (rule otlp_Install_factoryCalls)
next
  assume a: "OTLPExporterConn cfgs = None
       \<and> NewExporterGRPCClient ext cfgs (factoryCalls p) = (Some c, None)"
  then have st: "OTLPExporterConn (fst (snd (otlp_Install ext cfgs p))) = Some c"
    by (simp add: otlp_Install_stores_conn)
  show "OTLPExporterConn (fst (snd (otlp_Install ext cfgs p))) = Some c"
    by (rule st)
  from a have fc: "factoryCalls (snd (snd (otlp_Install ext cfgs p))) = factoryCalls p + 1"
    by (simp add: otlp_Install_factoryCalls)
  show "factoryCalls (snd (snd (otlp_Install ext (fst (snd (otlp_Install ext cfgs p)))
                                    (snd (snd (otlp_Install ext cfgs p)))))) = factoryCalls p + 1"
    using otlp_Install_reuses_conn [OF st] fc by simp
  show "last (exporterConns (snd (snd (otlp_Install ext (fst (snd (otlp_Install ext cfgs p)))
                                    (snd (snd (otlp_Install ext cfgs p))))))) = Some c"
    using otlp_Install_reuses_conn [OF st] by simp
next
  assume c: "OTLPExporterConn cfgs = Some c"
  show "OTLPExporterConn (fst (snd (otlp_Install ext cfgs p))) = Some c"
    and "factoryCalls (snd (snd (otlp_Install ext cfgs p))) = factoryCalls p"
    and "exporterConns (snd (snd (otlp_Install ext cfgs p))) = exporterConns p @ [Some c]"
    using otlp_Install_reuses_conn [OF c] by simp_all
next
  assume "\<not> Enabled cfgs"
  then show "factoryCalls (snd (snd (Install ext cfgs p))) = factoryCalls p"
    and "OTLPExporterConn (fst (snd (Install ext cfgs p))) = OTLPExporterConn cfgs"
    by (simp_all add: Install_def noop_Install_result)
qed

theorem connection_factory_called_only_without_cached_connection_witness:
  "OTLPExporterConn (sample_cfgs True) = None
   \<and> NewExporterGRPCClient reachable (sample_cfgs True) (factoryCalls fresh_process) = (Some (Conn 0), None)
   \<and> factoryCalls (snd (snd (otlp_Install reachable (sample_cfgs True) fresh_process))) = 1
   \<and> OTLPExporterConn (fst (snd (otlp_Install reachable (sample_cfgs True) fresh_process))) = Some (Conn 0)
   \<and> factoryCalls (snd (snd (otlp_Install reachable
         (fst (snd (otlp_Install reachable (sample_cfgs True) fresh_process)))
         (snd (snd (otlp_Install reachable (sample_cfgs True) fresh_process)))))) = 1
   \<and> \<not> Enabled (sample_cfgs False)
   \<and> factoryCalls (snd (snd (Install reachable (sample_cfgs False) fresh_process))) = 0"
proof -
  have h: "OTLPExporterConn (sample_cfgs True) = None"
    "NewExporterGRPCClient reachable (sample_cfgs True) (factoryCalls fresh_process) = (Some (Conn 0), None)"
    "\<not> Enabled (sample_cfgs False)" "factoryCalls fresh_process = 0"
    by (simp_all add: sample_cfgs_def reachable_def fresh_process_def)
  show ?thesis
    using h
      connection_factory_called_only_without_cached_connection [where ext = reachable
        and cfgs = "sample_cfgs True" and p = fresh_process and c = "Conn 0"]
      connection_factory_called_only_without_cached_connection [where ext = reachable
        and cfgs = "sample_cfgs False" and p = fresh_process]
    by simp
qed


section \<open>Properties of the gauge collectors\<close>

lemma orReturn_Inl: "orReturn (Inl err, mt) f = (Inl err, mt)"
  by (simp add: orReturn_def)

lemma orReturn_Inr: "orReturn (Inr x, mt) f = f x mt"
  by (simp add: orReturn_def)

lemma orReturn_assoc:
  "orReturn (orReturn r f) g = orReturn r (\<lambda>x mt. orReturn (f x mt) g)"
  by (cases r) (auto simp: orReturn_def split: sum.splits)

lemma createGauges_Nil_then: "orReturn (createGauges k [] mt) f = f [] mt"
  by (simp add: orReturn_Inr)

lemma createGauges_Cons_then:
  "orReturn (createGauges k ((name, description) # rest) mt) f =
     orReturn (Int64ObservableGauge k name description mt) (\<lambda>g mt'.
     orReturn (createGauges k rest mt') (\<lambda>gs. f (g # gs)))"
  by (simp add: orReturn_assoc orReturn_Inr)

lemma NewMemGauges_createGauges:
  "NewMemGauges k mt =
     orReturn (createGauges k memGaugeNames mt) (\<lambda>gs mt'. (Inr (memGauges_of gs), mt'))"
  unfolding memGaugeNames_def NewMemGauges_def
  by (simp only: createGauges_Cons_then createGauges_Nil_then memGauges_of_def nth_Cons_0 nth_Cons_numeral
        nth_Cons_Suc One_nat_def diff_numeral_simps arith_simps numeral_eq_Suc pred_numeral_simps)


lemma NewSysGauge_createGauges:
  "NewSysGauge k mt =
     orReturn (createGauges k sysGaugeNames mt) (\<lambda>gs mt'. (Inr (sysGauges_of gs), mt'))"
  unfolding sysGaugeNames_def NewSysGauge_def
  by (simp only: createGauges_Cons_then createGauges_Nil_then sysGauges_of_def nth_Cons_0 nth_Cons_numeral
        nth_Cons_Suc One_nat_def diff_numeral_simps arith_simps numeral_eq_Suc pred_numeral_simps)

lemma createGauges_firstRefusal:
  "createGauges k names mt =
     (case firstRefusal k (gauges mt) names of
        Some (err, gs) \<Rightarrow> (Inl err, mt\<lparr>gauges := gs\<rparr>)
      | None \<Rightarrow> (Inr (map (\<lambda>(name, description). Gauge name description) names),
                 mt\<lparr>gauges := gauges mt @ map (\<lambda>(name, description). Gauge name description) names\<rparr>))"
proof (induction names arbitrary: mt)
  case Nil
  show ?case by simp
next
  case (Cons nd names)
  obtain n d where nd: "nd = (n, d)" by (cases nd)
  show ?case
  proof (cases "gaugeError k (gauges mt) n")
    case None
    then show ?thesis
      by (simp add: nd Int64ObservableGauge_def orReturn_Inr Cons.IH orReturn_def
            split: option.splits)
  next
    case (Some err)
    then show ?thesis
      by (simp add: nd Int64ObservableGauge_def orReturn_Inl)
  qed
qed

lemma firstRefusal_prefix:
  "firstRefusal k gs0 names = Some (err, gs) \<Longrightarrow> prefix gs0 gs"
proof (induction names arbitrary: gs0)
  case Nil
  then show ?case by simp
next
  case (Cons nd names)
  obtain n d where nd: "nd = (n, d)" by (cases nd)
  show ?case
  proof (cases "gaugeError k gs0 n")
    case None
    with Cons.prems nd have "firstRefusal k (gs0 @ [Gauge n d]) names = Some (err, gs)"
      by simp
    from Cons.IH [OF this] show ?thesis
      by (rule append_prefixD)
  next
    case (Some e)
    with Cons.prems nd show ?thesis by simp
  qed
qed

lemma firstRefusal_error:
  "firstRefusal k gs0 names = Some (err, gs) \<Longrightarrow>
     \<exists>name \<in> fst ` set names. gaugeError k gs name = Some err"
proof (induction names arbitrary: gs0)
  case Nil
  then show ?case by simp
next
  case (Cons nd names)
  obtain n d where nd: "nd = (n, d)" by (cases nd)
  show ?case
  proof (cases "gaugeError k gs0 n")
    case None
    with Cons.prems nd have "firstRefusal k (gs0 @ [Gauge n d]) names = Some (err, gs)"
      by simp
    from Cons.IH [OF this] show ?thesis by auto
  next
    case (Some e)
    with Cons.prems nd show ?thesis by auto
  qed
qed

lemma NewMemGauges_refused:
  "firstRefusal k (gauges mt) memGaugeNames = Some (err, gs) \<Longrightarrow>
     NewMemGauges k mt = (Inl err, mt\<lparr>gauges := gs\<rparr>)"
  by (simp add: NewMemGauges_createGauges createGauges_firstRefusal orReturn_Inl)

lemma memGauges_of_names:
  "memGauges_of (map (\<lambda>(name, description). Gauge name description) memGaugeNames) = created_memGauges"
  by (simp add: memGauges_of_def memGaugeNames_def created_memGauges_def)

lemma NewMemGauges_created:
  "firstRefusal k (gauges mt) memGaugeNames = None \<Longrightarrow>
     NewMemGauges k mt =
       (Inr created_memGauges,
        mt\<lparr>gauges := gauges mt @ map (\<lambda>(name, description). Gauge name description) memGaugeNames\<rparr>)"
  by (simp add: NewMemGauges_createGauges createGauges_firstRefusal orReturn_Inr memGauges_of_names)

lemma NewSysGauge_refused:
  "firstRefusal k (gauges mt) sysGaugeNames = Some (err, gs) \<Longrightarrow>
     NewSysGauge k mt = (Inl err, mt\<lparr>gauges := gs\<rparr>)"
  by (simp add: NewSysGauge_createGauges createGauges_firstRefusal orReturn_Inl)

lemma NewSysGauge_created:
  "firstRefusal k (gauges mt) sysGaugeNames = None \<Longrightarrow>
     NewSysGauge k mt =
       (Inr (sysGauges_of (map (\<lambda>(name, description). Gauge name description) sysGaugeNames)),
        mt\<lparr>gauges := gauges mt @ map (\<lambda>(name, description). Gauge name description) sysGaugeNames\<rparr>)"
  by (simp add: NewSysGauge_createGauges createGauges_firstRefusal orReturn_Inr)




lemma memGauges_cb_observations:
  "fst (memGauges_cb m rt) =
     [(ggSysBytes m, int64 (Sys (memStats rt (memReads rt)))),
          (ggAllocBytesTotal m, int64 (TotalAlloc (memStats rt (memReads rt)))),
          (ggHeapAllocBytes m, int64 (HeapAlloc (memStats rt (memReads rt)))),
          (ggFreesTotal m, int64 (Frees (memStats rt (memReads rt)))),
          (ggGcSysBytes m, int64 (GCSys (memStats rt (memReads rt)))),
          (ggHeapIdleBytes m, int64 (HeapIdle (memStats rt (memReads rt)))),
          (ggInuseBytes m, int64 (HeapInuse (memStats rt (memReads rt)))),
          (ggHeapObjects m, int64 (HeapObjects (memStats rt (memReads rt)))),
          (ggHeapReleasedBytes m, int64 (HeapReleased (memStats rt (memReads rt)))),
          (ggHeapSysBytes m, int64 (HeapSys (memStats rt (memReads rt)))),
          (ggLastGcTimeSeconds m, int64 (LastGC (memStats rt (memReads rt)))),
          (ggLookupsTotal m, int64 (Lookups (memStats rt (memReads rt)))),
          (ggMallocsTotal m, int64 (Mallocs (memStats rt (memReads rt)))),
          (ggMCacheInuseBytes m, int64 (MCacheInuse (memStats rt (memReads rt)))),
          (ggMCacheSysBytes m, int64 (MCacheSys (memStats rt (memReads rt)))),
          (ggMspanInuseBytes m, int64 (MSpanInuse (memStats rt (memReads rt)))),
          (ggMspanSysBytes m, int64 (MSpanSys (memStats rt (memReads rt)))),
          (ggNextGcBytes m, int64 (NextGC (memStats rt (memReads rt)))),
          (ggOtherSysBytes m, int64 (OtherSys (memStats rt (memReads rt)))),
          (ggStackInuseBytes m, int64 (StackSys (memStats rt (memReads rt)))),
          (ggGcCompletedCycle m, int64_of_uint32 (NumGC (memStats rt (memReads rt)))),
          (ggGcPauseTotal m, int64 (PauseTotalNs (memStats rt (memReads rt))))]"
  by (simp add: memGauges_cb_def ReadMemStats_def)









lemma NewMemGauges_Inr:
  assumes "fst (NewMemGauges k mt) = Inr m"
  shows "firstRefusal k (gauges mt) memGaugeNames = None \<and> m = created_memGauges"
proof (cases "firstRefusal k (gauges mt) memGaugeNames")
  case None
  with assms show ?thesis by (simp add: NewMemGauges_created)
next
  case (Some a)
  obtain err gs where "a = (err, gs)" by (cases a)
  with Some assms show ?thesis by (simp add: NewMemGauges_refused)
qed

lemma NewSysGauge_Inr:
  assumes "fst (NewSysGauge k mt) = Inr s"
  shows "firstRefusal k (gauges mt) sysGaugeNames = None"
proof (cases "firstRefusal k (gauges mt) sysGaugeNames")
  case None
  then show ?thesis .
next
  case (Some a)
  obtain err gs where "a = (err, gs)" by (cases a)
  with Some assms show ?thesis by (simp add: NewSysGauge_refused)
qed

lemma createGauges_meter:
  "prefix (gauges mt) (gauges (snd (createGauges k names mt)))
   \<and> callbacks (snd (createGauges k names mt)) = callbacks mt"
proof (cases "firstRefusal k (gauges mt) names")
  case None
  then show ?thesis by (simp add: createGauges_firstRefusal)
next
  case (Some a)
  obtain err gs where a: "a = (err, gs)" by (cases a)
  with Some have "prefix (gauges mt) gs" by (simp add: firstRefusal_prefix)
  with Some a show ?thesis by (simp add: createGauges_firstRefusal)
qed

lemma orReturn_snd_Inr:
  "snd (orReturn r (\<lambda>x mt'. (Inr (f x), mt'))) = snd r"
  by (cases r) (auto simp: orReturn_def split: sum.splits)

text \<open>
  C9. When the meter refuses one of the gauges of \<^verbatim>\<open>NewMemGauges\<close> or of
  \<^verbatim>\<open>NewSysGauge\<close>, the constructor returns that error and no collector; a collector is
  returned only when every one of its gauges was created. Either way the gauges that
  existed on the meter before (those of collectors constructed earlier) are still there,
  in place, and the registered callbacks are untouched.
\<close>

theorem collector_construction_all_or_nothing:
  "(firstRefusal k (gauges mt) memGaugeNames = Some (err, gs) \<longrightarrow>
      NewMemGauges k mt = (Inl err, mt\<lparr>gauges := gs\<rparr>))
   \<and> (firstRefusal k (gauges mt) sysGaugeNames = Some (err, gs) \<longrightarrow>
      NewSysGauge k mt = (Inl err, mt\<lparr>gauges := gs\<rparr>))
   \<and> (fst (NewMemGauges k mt) = Inr m \<longrightarrow>
      firstRefusal k (gauges mt) memGaugeNames = None
    \<and> gauges (snd (NewMemGauges k mt)) =
        gauges mt @ map (\<lambda>(name, description). Gauge name description) memGaugeNames)
   \<and> (fst (NewSysGauge k mt) = Inr s \<longrightarrow>
      firstRefusal k (gauges mt) sysGaugeNames = None
    \<and> gauges (snd (NewSysGauge k mt)) =
        gauges mt @ map (\<lambda>(name, description). Gauge name description) sysGaugeNames)
   \<and> prefix (gauges mt) (gauges (snd (NewMemGauges k mt)))
   \<and> callbacks (snd (NewMemGauges k mt)) = callbacks mt
   \<and> prefix (gauges mt) (gauges (snd (NewSysGauge k mt)))
   \<and> callbacks (snd (NewSysGauge k mt)) = callbacks mt"
proof (intro conjI impI)
  assume "firstRefusal k (gauges mt) memGaugeNames = Some (err, gs)"
  then show "NewMemGauges k mt = (Inl err, mt\<lparr>gauges := gs\<rparr>)"
    by (rule NewMemGauges_refused)
next
  assume "firstRefusal k (gauges mt) sysGaugeNames = Some (err, gs)"
  then show "NewSysGauge k mt = (Inl err, mt\<lparr>gauges := gs\<rparr>)"
    by (rule NewSysGauge_refused)
next
  assume "fst (NewMemGauges k mt) = Inr m"
  then have n: "firstRefusal k (gauges mt) memGaugeNames = None"
    by (simp add: NewMemGauges_Inr)
  show "firstRefusal k (gauges mt) memGaugeNames = None"
    by (rule n)
  show "gauges (snd (NewMemGauges k mt)) =
        gauges mt @ map (\<lambda>(name, description). Gauge name description) memGaugeNames"
    by (simp add: NewMemGauges_created [OF n])
next
  assume "fst (NewSysGauge k mt) = Inr s"
  then have n: "firstRefusal k (gauges mt) sysGaugeNames = None"
    by (rule NewSysGauge_Inr)
  show "firstRefusal k (gauges mt) sysGaugeNames = None"
    by (rule n)
  show "gauges (snd (NewSysGauge k mt)) =
        gauges mt @ map (\<lambda>(name, description). Gauge name description) sysGaugeNames"
    by (simp add: NewSysGauge_created [OF n])
next
  show "prefix (gauges mt) (gauges (snd (NewMemGauges k mt)))"
    and "callbacks (snd (NewMemGauges k mt)) = callbacks mt"
    using createGauges_meter [of mt k memGaugeNames]
    by (simp_all add: NewMemGauges_createGauges orReturn_snd_Inr)
  show "prefix (gauges mt) (gauges (snd (NewSysGauge k mt)))"
    and "callbacks (snd (NewSysGauge k mt)) = callbacks mt"
    using createGauges_meter [of mt k sysGaugeNames]
    by (simp_all add: NewSysGauge_createGauges orReturn_snd_Inr)
qed

lemma firstRefusal_taken_mem:
  "firstRefusal unique_names (gauges taken_meter) memGaugeNames =
     Some (Error ''duplicate instrument'',
           gauges taken_meter @
             [Gauge ''go_memstats_sys_bytes'' ''Number of bytes obtained from system.''])"
  by (simp add: memGaugeNames_def unique_names_def taken_meter_def)

lemma firstRefusal_taken_sys:
  "firstRefusal unique_names (gauges taken_meter) sysGaugeNames =
     Some (Error ''duplicate instrument'',
           gauges taken_meter @ [Gauge ''go_threads'' ''Number of OS threads created.''])"
  by (simp add: sysGaugeNames_def unique_names_def taken_meter_def)

lemma firstRefusal_accepting:
  "firstRefusal accepting gs names = None"
  by (induction names arbitrary: gs) (auto simp: accepting_def)

theorem collector_construction_all_or_nothing_witness:
  "firstRefusal unique_names (gauges taken_meter) memGaugeNames =
     Some (Error ''duplicate instrument'',
           gauges taken_meter @
             [Gauge ''go_memstats_sys_bytes'' ''Number of bytes obtained from system.''])
   \<and> fst (NewMemGauges unique_names taken_meter) = Inl (Error ''duplicate instrument'')
   \<and> firstRefusal unique_names (gauges taken_meter) sysGaugeNames =
     Some (Error ''duplicate instrument'',
           gauges taken_meter @ [Gauge ''go_threads'' ''Number of OS threads created.''])
   \<and> fst (NewSysGauge unique_names taken_meter) = Inl (Error ''duplicate instrument'')
   \<and> fst (NewMemGauges accepting taken_meter) = Inr created_memGauges
   \<and> length (gauges (snd (NewMemGauges accepting taken_meter))) = 24
   \<and> fst (NewSysGauge accepting taken_meter) =
       Inr (sysGauges_of (map (\<lambda>(name, description). Gauge name description) sysGaugeNames))
   \<and> length (gauges (snd (NewSysGauge accepting taken_meter))) = 5"
proof -
  have a: "fst (NewMemGauges accepting taken_meter) = Inr created_memGauges"
    by (simp add: NewMemGauges_created firstRefusal_accepting)
  have b: "fst (NewSysGauge accepting taken_meter) =
       Inr (sysGauges_of (map (\<lambda>(name, description). Gauge name description) sysGaugeNames))"
    by (simp add: NewSysGauge_created firstRefusal_accepting)
  have l: "length (gauges taken_meter) = 2" "length memGaugeNames = 22" "length sysGaugeNames = 3"
    by (simp_all add: taken_meter_def memGaugeNames_def sysGaugeNames_def)
  note t1 = collector_construction_all_or_nothing [where k = unique_names and mt = taken_meter
        and err = "Error ''duplicate instrument''"
        and gs = "gauges taken_meter @
             [Gauge ''go_memstats_sys_bytes'' ''Number of bytes obtained from system.'']"]
  note t2 = collector_construction_all_or_nothing [where k = unique_names and mt = taken_meter
        and err = "Error ''duplicate instrument''"
        and gs = "gauges taken_meter @ [Gauge ''go_threads'' ''Number of OS threads created.'']"]
  note t3 = collector_construction_all_or_nothing [where k = accepting and mt = taken_meter
        and m = created_memGauges
        and s = "sysGauges_of (map (\<lambda>(name, description). Gauge name description) sysGaugeNames)"]
  have 1: "fst (NewMemGauges unique_names taken_meter) = Inl (Error ''duplicate instrument'')"
    using t1 [THEN conjunct1] firstRefusal_taken_mem by simp
  have 2: "fst (NewSysGauge unique_names taken_meter) = Inl (Error ''duplicate instrument'')"
    using t2 [THEN conjunct2, THEN conjunct1] firstRefusal_taken_sys by simp
  have 3: "length (gauges (snd (NewMemGauges accepting taken_meter))) = 24"
    using t3 [THEN conjunct2, THEN conjunct2, THEN conjunct1] a l by simp
  have 4: "length (gauges (snd (NewSysGauge accepting taken_meter))) = 5"
    using t3 [THEN conjunct2, THEN conjunct2, THEN conjunct2, THEN conjunct1] b l by simp
  show ?thesis
    using 1 2 3 4 a b firstRefusal_taken_mem firstRefusal_taken_sys by simp
qed

text \<open>
  C10. The observation for the field \<^verbatim>\<open>ggStackInuseBytes\<close>, the gauge created under the
  name \<^verbatim>\<open>go_memstats_stack_inuse_bytes\<close> with the description of bytes in use by the stack
  allocator, is the conversion of the snapshot's \<^verbatim>\<open>StackSys\<close>; the snapshot's
  \<^verbatim>\<open>StackInuse\<close> has no influence on what the callback emits.
\<close>

theorem stack_inuse_gauge_reads_StackSys:
  "fst (memGauges_cb m rt) ! 19 =
     (ggStackInuseBytes m, int64 (StackSys (memStats rt (memReads rt))))
   \<and> (fst (NewMemGauges k mt) = Inr m \<longrightarrow>
        ggStackInuseBytes m =
          Gauge ''go_memstats_stack_inuse_bytes'' ''Number of bytes in use by the stack allocator.'')
   \<and> fst (memGauges_cb m
        (rt\<lparr>memStats := (memStats rt)(memReads rt := (memStats rt (memReads rt))\<lparr>StackInuse := x\<rparr>)\<rparr>)) =
      fst (memGauges_cb m rt)"
proof (intro conjI impI)
  show "fst (memGauges_cb m rt) ! 19 =
     (ggStackInuseBytes m, int64 (StackSys (memStats rt (memReads rt))))"
    by (simp add: memGauges_cb_observations)
next
  assume "fst (NewMemGauges k mt) = Inr m"
  then have "m = created_memGauges"
    by (simp add: NewMemGauges_Inr)
  then show "ggStackInuseBytes m =
          Gauge ''go_memstats_stack_inuse_bytes'' ''Number of bytes in use by the stack allocator.''"
    by (simp add: created_memGauges_def)
next
  show "fst (memGauges_cb m
        (rt\<lparr>memStats := (memStats rt)(memReads rt := (memStats rt (memReads rt))\<lparr>StackInuse := x\<rparr>)\<rparr>)) =
      fst (memGauges_cb m rt)"
    by (simp add: memGauges_cb_observations)
qed

theorem stack_inuse_gauge_reads_StackSys_witness:
  "fst (NewMemGauges accepting \<lparr>gauges = [], callbacks = []\<rparr>) = Inr created_memGauges
   \<and> ggStackInuseBytes created_memGauges =
       Gauge ''go_memstats_stack_inuse_bytes'' ''Number of bytes in use by the stack allocator.''
   \<and> StackSys calm_stats = 64 \<and> StackInuse calm_stats = 48
   \<and> fst (memGauges_cb created_memGauges (sample_runtime calm_stats)) ! 19 =
       (Gauge ''go_memstats_stack_inuse_bytes'' ''Number of bytes in use by the stack allocator.'', 64)"
proof -
  have a: "fst (NewMemGauges accepting \<lparr>gauges = [], callbacks = []\<rparr>) = Inr created_memGauges"
    by (simp add: NewMemGauges_created firstRefusal_accepting)
  have h: "\<And>n. memStats (sample_runtime calm_stats) n = calm_stats"
    by (simp add: sample_runtime_def)
  have c: "StackSys calm_stats = 64" "StackInuse calm_stats = 48"
    by (simp_all add: calm_stats_def)
  have i: "int64 64 = 64"
    by (simp add: int64_def)
  note t = stack_inuse_gauge_reads_StackSys [where m = created_memGauges
        and rt = "sample_runtime calm_stats" and k = accepting
        and mt = "\<lparr>gauges = [], callbacks = []\<rparr>"]
  have g: "ggStackInuseBytes created_memGauges =
       Gauge ''go_memstats_stack_inuse_bytes'' ''Number of bytes in use by the stack allocator.''"
    using t [THEN conjunct2, THEN conjunct1] a by simp
  show ?thesis
    using t [THEN conjunct1] a g by (simp add: h c i)
qed

end
